theory Spec2Isabelle
  imports Main "HOL-Library.Char_ord" "HOL-Library.List_Lexorder" "HOL-Library.Multiset"
begin

section \<open>The stock forecast application (main.py)\<close>

text \<open>
  The program is one Python module: a catalogue of thirteen stocks built at import time, a
  cached loader of price history, a plotting helper and \<open>main\<close>, which reads two widgets,
  loads the history, fits a seasonal ARIMA model and builds a frame of future dates and
  predicted prices.

  Modelling decisions.
  \<^item> A pandas timestamp of the daily data is its day number (days since 1970-01-01), an
    \<open>int\<close>; adding \<open>DateOffset(1)\<close> and stepping with frequency \<open>D\<close> both add one day.
    The representable range of pandas timestamps (years 1677 to 2262) is not modelled.
  \<^item> Prices are never computed with in main.py, only moved around, so the price type is a
    type variable \<open>'v\<close>.
  \<^item> A Python exception is a value of type \<open>error\<close>; a statement that can raise returns
    \<open>error + 'a\<close> with \<open>Inl\<close> for the exception. The module has no \<open>try\<close>, so the first
    exception ends \<open>main\<close>.
  \<^item> yfinance and statsmodels are not part of the repository. Their entry points are the
    fields of the record \<open>world\<close>, and every theorem holds for all values of these fields.
  \<^item> The streamlit and plotly calls only display values and are left out; the two widget
    results are arguments of \<open>main\<close>.
\<close>

subsection \<open>Data\<close>

type_synonym date = int

datatype error = KeyError | IndexError | ValueError | Exception string

text \<open>One row of the frame returned by the loader; main.py reads these three columns.\<close>

record 'v price_row =
  Date :: date
  Open :: 'v
  Close :: 'v

text \<open>Calendar dates are only needed to read examples: the day number of a civil date.\<close>

definition days_from_civil :: "int \<Rightarrow> int \<Rightarrow> int \<Rightarrow> date" where
  "days_from_civil y m d =
     (let y' = (if m \<le> 2 then y - 1 else y);
          era = y' div 400;
          yoe = y' - era * 400;
          doy = (153 * (if m > 2 then m - 3 else m + 9) + 2) div 5 + d - 1;
          doe = yoe * 365 + yoe div 4 - yoe div 100 + doy
      in era * 146097 + doe - 719468)"

subsection \<open>The catalogue (lines 26 to 32)\<close>

definition unsortedStocksCodes :: "string list" where
  "unsortedStocksCodes =
     [''JNJ'', ''GOOG'', ''AAPL'', ''BRK-A'', ''AMZN'', ''MSFT'', ''JPM'', ''NFLX'', ''META'',
      ''BAC'', ''GME'', ''MCD'', ''KO'']"

definition unsortedStocksList :: "string list" where
  "unsortedStocksList =
     [''Johnson & Johnson'', ''Alphabet Inc Class C'', ''Apple Inc'',
      ''Berkshire Hathaway Inc. Class A'', ''Amazon.com, Inc.'', ''Microsoft Corporation'',
      ''JPMorgan Chase & Co'', ''Netflix Inc'', ''Meta Platforms Inc'',
      ''Bank of America Corp'', ''GameStop Corp.'', ''McDonald's Corp'', ''Coca-Cola Co'']"

text \<open>
  Python's \<open>dict\<close> of a sequence of pairs: a later pair with the same key replaces an
  earlier one, so the lookup finds the last pair with the key.
\<close>

definition dict :: "('k \<times> 'a) list \<Rightarrow> 'k \<rightharpoonup> 'a" where
  "dict kvs = map_of (rev kvs)"

definition stocks_dictionary :: "string \<rightharpoonup> string" where
  "stocks_dictionary = dict (zip unsortedStocksList unsortedStocksCodes)"

text \<open>
  \<open>sorted\<close> on Python strings compares code points lexicographically, a proper prefix
  first; this is the order of \<open>char list\<close>.
\<close>

definition stocks :: "string list" where
  "stocks = sort unsortedStocksList"

definition START :: string where
  "START = ''2012-01-01''"

subsection \<open>The libraries\<close>

text \<open>
  \<open>TODAY\<close> is the formatted current date. \<open>yf_download\<close> is \<open>yf.download\<close> followed by
  \<open>reset_index\<close>. \<open>SARIMAX\<close>, \<open>fit\<close> and \<open>get_forecast\<close> are the three statsmodels calls:
  the constructor with the series, the order and the seasonal order, \<open>fit(disp=False)\<close>,
  and \<open>get_forecast(steps)\<close> already projected to \<open>predicted_mean\<close>. \<open>mle_converged\<close> is
  the convergence flag that statsmodels stores in the fit results; main.py never reads it.
\<close>

record ('v, 'm, 'r) world =
  TODAY :: string
  yf_download :: "string \<Rightarrow> string \<Rightarrow> string \<Rightarrow> error + 'v price_row list"
  SARIMAX :: "'v list \<Rightarrow> int \<times> int \<times> int \<Rightarrow> int \<times> int \<times> int \<times> int \<Rightarrow> error + 'm"
  fit :: "'m \<Rightarrow> error + 'r"
  get_forecast :: "'r \<Rightarrow> int \<Rightarrow> error + 'v list"
  mle_converged :: "'r \<Rightarrow> bool"

text \<open>\<open>xs.iloc[-1]\<close>: the last element, IndexError on an empty column.\<close>

definition iloc_last :: "'a list \<Rightarrow> error + 'a" where
  "iloc_last xs = (if xs = [] then Inl IndexError else Inr (last xs))"

text \<open>
  \<open>pd.date_range(start, periods, freq='D')\<close>: \<open>periods\<close> days from \<open>start\<close> on;
  a negative number of periods is a ValueError.
\<close>

definition date_range :: "date \<Rightarrow> int \<Rightarrow> error + date list" where
  "date_range start periods =
     (if periods < 0 then Inl ValueError
      else Inr (map (\<lambda>i. start + i) [0..periods - 1]))"

text \<open>
  \<open>pd.DataFrame({'ds': index, 'y': values})\<close> with an index object and a series: the
  index object is taken by position, and its length must be the length of the series,
  otherwise the constructor raises ValueError.
\<close>

definition DataFrame :: "date list \<Rightarrow> 'v list \<Rightarrow> error + (date \<times> 'v) list" where
  "DataFrame ds y = (if length ds \<noteq> length y then Inl ValueError else Inr (zip ds y))"

subsection \<open>The functions of main.py\<close>

text \<open>\<open>load_stock_data\<close> (lines 36 to 51); the cache decorator does not change its result.\<close>

definition load_stock_data ::
  "('v, 'm, 'r) world \<Rightarrow> string \<Rightarrow> error + 'v price_row list" where
  "load_stock_data w stock_code = yf_download w stock_code START (TODAY w)"

text \<open>Line 98.\<close>

definition period :: "int \<Rightarrow> int" where
  "period n_years = n_years * 365"

text \<open>
  Lines 131 and 132: the columns Date and Close, renamed ds and y. Line 136, the
  differencing, is a comment.
\<close>

definition df_train :: "'v price_row list \<Rightarrow> (date \<times> 'v) list" where
  "df_train stock_data = map (\<lambda>r. (Date r, Close r)) stock_data"

text \<open>Lines 139 to 145: construct the model, fit it, forecast.\<close>

definition forecast_values :: "('v, 'm, 'r) world \<Rightarrow> 'v list \<Rightarrow> int \<Rightarrow> error + 'v list" where
  "forecast_values w y steps =
     (case SARIMAX w y (1, 1, 1) (1, 1, 1, 12) of
        Inl e \<Rightarrow> Inl e
      | Inr model \<Rightarrow>
          (case fit w model of
             Inl e \<Rightarrow> Inl e
           | Inr results \<Rightarrow> get_forecast w results steps))"

text \<open>Line 148.\<close>

definition forecast_index :: "date list \<Rightarrow> int \<Rightarrow> error + date list" where
  "forecast_index ds periods =
     (case iloc_last ds of
        Inl e \<Rightarrow> Inl e
      | Inr d \<Rightarrow> date_range (d + 1) periods)"

text \<open>Lines 148 and 149.\<close>

definition forecast_dataframe :: "date list \<Rightarrow> int \<Rightarrow> 'v list \<Rightarrow> error + (date \<times> 'v) list" where
  "forecast_dataframe ds periods values =
     (case forecast_index ds periods of
        Inl e \<Rightarrow> Inl e
      | Inr idx \<Rightarrow> DataFrame idx values)"

text \<open>What \<open>main\<close> has computed when it ends: the two traces of the last figure.\<close>

record 'v page =
  stock_code :: string
  Observed :: "(date \<times> 'v) list"
  Forecast :: "(date \<times> 'v) list"

definition main :: "('v, 'm, 'r) world \<Rightarrow> string \<Rightarrow> int \<Rightarrow> error + 'v page" where
  "main w dropdown_box_selection n_years =
     (case stocks_dictionary dropdown_box_selection of
        None \<Rightarrow> Inl KeyError
      | Some code \<Rightarrow>
          (case load_stock_data w code of
             Inl e \<Rightarrow> Inl e
           | Inr stock_data \<Rightarrow>
               (case forecast_values w (map snd (df_train stock_data)) (period n_years) of
                  Inl e \<Rightarrow> Inl e
                | Inr vs \<Rightarrow>
                    (case forecast_dataframe (map fst (df_train stock_data)) (period n_years) vs of
                       Inl e \<Rightarrow> Inl e
                     | Inr fd \<Rightarrow>
                         Inr \<lparr>stock_code = code, Observed = df_train stock_data,
                              Forecast = fd\<rparr>))))"

subsection \<open>A small world for examples\<close>

text \<open>
  A stand-in for the two libraries, used only to run \<open>main\<close> on concrete data: the
  download returns the given rows for every code, the model is the series itself, and the
  forecast repeats the last observed price. Prices are integers (cents). It accepts every
  series and reports that the optimiser has not converged.
\<close>

definition naive_world :: "int price_row list \<Rightarrow> (int, int list, int list) world" where
  "naive_world rows =
     \<lparr>TODAY = ''2020-02-01'',
      yf_download = (\<lambda>code start end. Inr rows),
      SARIMAX = (\<lambda>y order seasonal_order. Inr y),
      fit = (\<lambda>model. Inr model),
      get_forecast = (\<lambda>results steps.
         Inr (replicate (nat steps) (if results = [] then 0 else last results))),
      mle_converged = (\<lambda>results. False)\<rparr>"

text \<open>January 2020, one row a day, and a three-day history.\<close>

definition january :: "int price_row list" where
  "january = map (\<lambda>d. \<lparr>Date = days_from_civil 2020 1 d, Open = 30000 + d, Close = 30010 + d\<rparr>) [1..31]"

definition three_days :: "int price_row list" where
  "three_days =
     [\<lparr>Date = 18290, Open = 30900, Close = 30950\<rparr>,
      \<lparr>Date = 18291, Open = 30950, Close = 31020\<rparr>,
      \<lparr>Date = 18292, Open = 31020, Close = 30980\<rparr>]"

text \<open>What \<open>main\<close> ends with on January 2020 in the small world, for one year.\<close>

definition january_page :: "int page" where
  "january_page =
     \<lparr>stock_code = ''AAPL'', Observed = df_train january,
      Forecast = zip (map (\<lambda>i. 18293 + i) [0..364]) (replicate 365 30041)\<rparr>"

text \<open>A model constructor that refuses every specification but one.\<close>

definition strict_SARIMAX ::
  "int list \<Rightarrow> int \<times> int \<times> int \<Rightarrow> int \<times> int \<times> int \<times> int \<Rightarrow> error + int list" where
  "strict_SARIMAX y order seasonal_order =
     (if order = (1, 1, 1) \<and> seasonal_order = (1, 1, 1, 12) then Inr y
      else Inl (Exception ''unsupported order''))"

section \<open>The horizon\<close>

text \<open>
  C9. The slider returns a number of years between 1 and 10; the horizon is that number
  times 365, so it is positive and lies between 365 and 3650.
\<close>

theorem period_range:
  "1 \<le> n_years \<Longrightarrow> n_years \<le> 10 \<Longrightarrow>
     period n_years = n_years * 365 \<and> 0 < period n_years \<and>
     365 \<le> period n_years \<and> period n_years \<le> 3650"
  by (simp add: period_def)

theorem period_range_witness:
  "(1::int) \<le> 7 \<and> (7::int) \<le> 10 \<and> period 7 = 2555 \<and> 0 < period 7 \<and>
     365 \<le> period 7 \<and> period 7 \<le> 3650"
  using period_range [of 7] by simp

section \<open>Auxiliary facts\<close>

subsection \<open>Calendar and catalogue\<close>

lemma days_from_civil_examples:
  "days_from_civil 1970 1 1 = 0" "days_from_civil 2020 1 31 = 18292"
  "days_from_civil 2020 2 1 = 18293" "days_from_civil 2024 2 29 + 1 = days_from_civil 2024 3 1"
  unfolding days_from_civil_def by simp_all

lemma dict_zip_nth:
  assumes "distinct ks" and "length ks = length vs" and "i < length ks"
  shows "dict (zip ks vs) (ks ! i) = Some (vs ! i)"
proof -
  have d: "distinct (map fst (rev (zip ks vs)))"
    using assms(1,2) by (simp add: rev_map [symmetric])
  have m: "(ks ! i, vs ! i) \<in> set (rev (zip ks vs))"
    using assms(2,3) by (auto simp: in_set_zip)
  show ?thesis
    unfolding dict_def using d m by (rule map_of_is_SomeI)
qed

lemma dom_dict: "length ks = length vs \<Longrightarrow> dom (dict (zip ks vs)) = set ks"
proof -
  assume l: "length ks = length vs"
  have "dom (dict (zip ks vs)) = fst ` set (zip ks vs)"
    unfolding dict_def by (simp add: dom_map_of_conv_image_fst)
  also have "\<dots> = set (map fst (zip ks vs))" by simp
  also have "\<dots> = set ks" using l by simp
  finally show ?thesis .
qed

lemma stocks_value: "stocks =
  [''Alphabet Inc Class C'', ''Amazon.com, Inc.'', ''Apple Inc'', ''Bank of America Corp'',
   ''Berkshire Hathaway Inc. Class A'', ''Coca-Cola Co'', ''GameStop Corp.'',
   ''JPMorgan Chase & Co'', ''Johnson & Johnson'', ''McDonald's Corp'', ''Meta Platforms Inc'',
   ''Microsoft Corporation'', ''Netflix Inc'']"
  unfolding stocks_def unsortedStocksList_def by code_simp

subsection \<open>Date ranges and frames\<close>

lemma length_days: "0 \<le> p \<Longrightarrow> length (map (\<lambda>i. s + i) [0..p - 1]) = nat p"
  by simp

lemma sorted_days: "sorted_wrt (<) (map (\<lambda>i. (s::int) + i) [0..p - 1])"
  by (simp add: sorted_wrt_iff_nth_less)

lemma distinct_days: "distinct (map (\<lambda>i. (s::int) + i) [0..p - 1])"
  by (simp add: distinct_map inj_on_def)

lemma forecast_index_nonempty:
  "ds \<noteq> [] \<Longrightarrow> 0 \<le> h \<Longrightarrow> forecast_index ds h = Inr (map (\<lambda>i. last ds + 1 + i) [0..h - 1])"
  by (simp add: forecast_index_def iloc_last_def date_range_def)

lemma forecast_index_empty: "forecast_index [] h = Inl IndexError"
  by (simp add: forecast_index_def iloc_last_def)

lemma forecast_index_negative: "ds \<noteq> [] \<Longrightarrow> h < 0 \<Longrightarrow> forecast_index ds h = Inl ValueError"
  by (simp add: forecast_index_def iloc_last_def date_range_def)

lemma main_Inr_index:
  assumes "main w sel n = Inr pg"
  shows "forecast_index (map fst (Observed pg)) (period n) = Inr (map fst (Forecast pg))"
  using assms
  by (auto simp: main_def forecast_dataframe_def DataFrame_def split: option.splits sum.splits if_splits)

lemma map_fst_df_train: "map fst (df_train rows) = map Date rows"
  by (simp add: df_train_def comp_def)

lemma map_snd_df_train: "map snd (df_train rows) = map Close rows"
  by (simp add: df_train_def comp_def)

lemma main_unfold:
  assumes "stocks_dictionary sel = Some code" and "load_stock_data w code = Inr rows"
  shows "main w sel n =
     (case forecast_values w (map Close rows) (period n) of
        Inl e \<Rightarrow> Inl e
      | Inr vs \<Rightarrow>
          (case forecast_dataframe (map Date rows) (period n) vs of
             Inl e \<Rightarrow> Inl e
           | Inr fd \<Rightarrow> Inr \<lparr>stock_code = code, Observed = df_train rows, Forecast = fd\<rparr>))"
  using assms unfolding main_def map_fst_df_train map_snd_df_train by simp

lemma forecast_dataframe_ok:
  assumes "ds \<noteq> []" and "int (length p) = h"
  shows "forecast_dataframe ds h p = Inr (zip (map (\<lambda>i. last ds + 1 + i) [0..h - 1]) p)"
proof -
  have h: "0 \<le> h" using assms(2) by auto
  have "length (map (\<lambda>i. last ds + 1 + i) [0..h - 1]) = length p"
    using assms(2) by auto
  thus ?thesis
    using assms(1) h by (simp add: forecast_dataframe_def forecast_index_nonempty DataFrame_def)
qed

lemma forecast_dataframe_mismatch:
  assumes "ds \<noteq> []" and "int (length p) \<noteq> h"
  shows "forecast_dataframe ds h (p :: 'v list) = Inl ValueError"
proof (cases "h < 0")
  case True
  thus ?thesis using assms(1) by (simp add: forecast_dataframe_def forecast_index_negative)
next
  case False
  hence h: "0 \<le> h" by simp
  have "length (map (\<lambda>i. last ds + 1 + i) [0..h - 1]) \<noteq> length p"
    using assms(2) h by auto
  thus ?thesis
    using assms(1) h by (simp add: forecast_dataframe_def forecast_index_nonempty DataFrame_def)
qed

text \<open>
  Whenever \<open>main\<close> ends with a page, the forecast frame has exactly as many rows as the
  horizon: the index has that many dates and the frame constructor accepts no other number
  of values.
\<close>

lemma main_Inr_length:
  assumes "main w sel n = Inr pg"
  shows "int (length (Forecast pg)) = period n"
proof -
  have i: "forecast_index (map fst (Observed pg)) (period n) = Inr (map fst (Forecast pg))"
    using assms by (rule main_Inr_index)
  hence "0 \<le> period n \<and> map fst (Forecast pg) = map (\<lambda>i. last (map fst (Observed pg)) + 1 + i) [0..period n - 1]"
    by (auto simp: forecast_index_def iloc_last_def date_range_def split: if_splits)
  hence "0 \<le> period n \<and> length (map fst (Forecast pg)) = nat (period n)"
    by (metis length_days)
  thus ?thesis by simp
qed

subsection \<open>Running the small world\<close>

lemma lookup_apple: "stocks_dictionary ''Apple Inc'' = Some ''AAPL''"
  unfolding stocks_dictionary_def dict_def unsortedStocksList_def unsortedStocksCodes_def by simp

lemma naive_load: "load_stock_data (naive_world rows) code = Inr rows"
  by (simp add: load_stock_data_def naive_world_def)

lemma naive_forecast_values:
  "forecast_values (naive_world rows) y steps = Inr (replicate (nat steps) (if y = [] then 0 else last y))"
  by (simp add: forecast_values_def naive_world_def)

lemma naive_main:
  assumes "rows \<noteq> []" and "0 \<le> n"
  shows "main (naive_world rows) ''Apple Inc'' n =
           Inr \<lparr>stock_code = ''AAPL'', Observed = df_train rows,
                Forecast = zip (map (\<lambda>i. Date (last rows) + 1 + i) [0..period n - 1])
                               (replicate (nat (period n)) (Close (last rows)))\<rparr>"
proof -
  have p: "0 \<le> period n" using assms(2) by (simp add: period_def)
  have fd: "forecast_dataframe (map Date rows) (period n)
              (replicate (nat (period n)) (Close (last rows))) =
            Inr (zip (map (\<lambda>i. last (map Date rows) + 1 + i) [0..period n - 1])
                     (replicate (nat (period n)) (Close (last rows))))"
    using assms(1) p by (intro forecast_dataframe_ok) simp_all
  show ?thesis
    using assms(1) fd
    by (simp add: main_unfold [OF lookup_apple naive_load] naive_forecast_values last_map)
qed

lemma naive_main_empty: "main (naive_world []) ''Apple Inc'' n = Inl IndexError"
  by (simp add: main_unfold [OF lookup_apple naive_load] naive_forecast_values
        forecast_dataframe_def forecast_index_empty)

lemma january_nonempty: "january \<noteq> []"
  by (simp add: january_def upto.simps)

lemma last_january: "last january = \<lparr>Date = 18292, Open = 30031, Close = 30041\<rparr>"
  unfolding january_def days_from_civil_def by code_simp

lemma january_main: "main (naive_world january) ''Apple Inc'' 1 = Inr january_page"
  using naive_main [OF january_nonempty, of 1]
  by (simp add: last_january january_page_def period_def)

lemma three_days_facts:
  "three_days \<noteq> []" "length three_days = 3" "last three_days = \<lparr>Date = 18292, Open = 31020, Close = 30980\<rparr>"
  by (simp_all add: three_days_def)

section \<open>The catalogue and the dropdown\<close>

text \<open>
  C10. The names offered in the dropdown are the sorted names of the catalogue, without
  duplicates, and they are exactly the keys of the dictionary (both are built from the two
  tuples of thirteen entries). So every selection is a key, and the lookup returns the code
  at the position of the name in the original tuples: it cannot fail with a missing key.
\<close>

theorem dropdown_lookup_defined:
  "length unsortedStocksList = 13 \<and> length unsortedStocksCodes = 13 \<and>
   distinct unsortedStocksList \<and>
   sorted stocks \<and> distinct stocks \<and> mset stocks = mset unsortedStocksList \<and>
   set stocks = dom stocks_dictionary \<and>
   (\<forall>s \<in> set stocks. \<exists>i<13. unsortedStocksList ! i = s \<and>
        stocks_dictionary s = Some (unsortedStocksCodes ! i))"
proof -
  have len: "length unsortedStocksList = 13" "length unsortedStocksCodes = 13"
    by (simp_all add: unsortedStocksList_def unsortedStocksCodes_def)
  have dst: "distinct unsortedStocksList"
    by (simp add: unsortedStocksList_def)
  have dom: "set stocks = dom stocks_dictionary"
    unfolding stocks_def stocks_dictionary_def using len by (simp add: dom_dict)
  have look: "\<exists>i<13. unsortedStocksList ! i = s \<and> stocks_dictionary s = Some (unsortedStocksCodes ! i)"
    if "s \<in> set stocks" for s
  proof -
    from that have "s \<in> set unsortedStocksList" by (simp add: stocks_def)
    then obtain i where i: "i < length unsortedStocksList" "unsortedStocksList ! i = s"
      by (auto simp: in_set_conv_nth)
    have "stocks_dictionary (unsortedStocksList ! i) = Some (unsortedStocksCodes ! i)"
      unfolding stocks_dictionary_def using dst _ i(1) by (rule dict_zip_nth) (simp add: len)
    thus ?thesis using i len by auto
  qed
  show ?thesis
    using len dst dom look by (simp add: stocks_def)
qed

theorem dropdown_lookup_defined_witness:
  "''Apple Inc'' \<in> set stocks \<and> unsortedStocksList ! 2 = ''Apple Inc'' \<and>
   unsortedStocksCodes ! 2 = ''AAPL'' \<and> stocks_dictionary ''Apple Inc'' = Some ''AAPL''"
proof -
  have m: "''Apple Inc'' \<in> set stocks"
    by (simp add: stocks_def unsortedStocksList_def)
  from dropdown_lookup_defined m obtain i where i: "i < 13"
    "unsortedStocksList ! i = ''Apple Inc''"
    "stocks_dictionary ''Apple Inc'' = Some (unsortedStocksCodes ! i)"
    by blast
  have two: "unsortedStocksList ! 2 = ''Apple Inc''"
    by (simp add: unsortedStocksList_def)
  have "distinct unsortedStocksList" "length unsortedStocksList = 13"
    using dropdown_lookup_defined by blast+
  hence "(unsortedStocksList ! i = unsortedStocksList ! 2) = (i = 2)"
    using i(1) by (intro nth_eq_iff_index_eq) simp_all
  hence "i = 2" using i(2) two by simp
  thus ?thesis using m two i(3) by (simp add: unsortedStocksCodes_def)
qed

section \<open>The prepared series\<close>

text \<open>
  C8. The prepared series has one entry for each input row, in the same order: the date
  and the closing price of that row, unchanged (the differencing step is commented out).
  It is the observed series that \<open>main\<close> ends with.
\<close>

theorem df_train_passes_close_through:
  "length (df_train rows) = length rows \<and>
   (\<forall>i<length rows. df_train rows ! i = (Date (rows ! i), Close (rows ! i))) \<and>
   (\<forall>(w :: ('v, 'm, 'r) world) sel n code pg.
      stocks_dictionary sel = Some code \<and> load_stock_data w code = Inr rows \<and>
      main w sel n = Inr pg \<longrightarrow> Observed pg = df_train rows)"
proof -
  have "Observed pg = df_train rows"
    if "stocks_dictionary sel = Some code" "load_stock_data w code = Inr rows" "main w sel n = Inr pg"
    for w :: "('v, 'm, 'r) world" and sel n code pg
    using that(3) unfolding main_unfold [OF that(1,2)] by (auto split: sum.splits)
  thus ?thesis by (auto simp: df_train_def)
qed

theorem df_train_passes_close_through_witness:
  "length (df_train three_days) = 3 \<and>
   df_train three_days ! 0 = (18290, 30950) \<and>
   df_train three_days ! 1 = (18291, 31020) \<and>
   df_train three_days ! 2 = (18292, 30980) \<and>
   stocks_dictionary ''Apple Inc'' = Some ''AAPL'' \<and>
   load_stock_data (naive_world january) ''AAPL'' = Inr january \<and>
   main (naive_world january) ''Apple Inc'' 1 = Inr january_page \<and>
   Observed january_page = df_train january"
proof -
  have l: "length three_days = 3" by (simp add: three_days_def)
  have a: "length (df_train three_days) = 3"
    and n: "\<And>i. i < 3 \<Longrightarrow> df_train three_days ! i = (Date (three_days ! i), Close (three_days ! i))"
    using df_train_passes_close_through [where ?'m = "int list" and ?'r = "int list", of three_days] l by auto
  have o: "Observed january_page = df_train january"
    using df_train_passes_close_through [where ?'m = "int list" and ?'r = "int list", of january]
      lookup_apple naive_load [of january "''AAPL''"] january_main by blast
  show ?thesis
    using a n [of 0] n [of 1] n [of 2] o lookup_apple naive_load [of january "''AAPL''"] january_main
    by (simp add: three_days_def)
qed

text \<open>
  C5, as the code has it. The prepare step checks nothing: on the empty history it returns
  the empty series. The run still ends without a forecast frame: with the error that the
  model library raises on the empty series, or else with IndexError when the last observed
  date is read.
\<close>

theorem empty_history_gives_no_forecast:
  "stocks_dictionary sel = Some code \<Longrightarrow> load_stock_data w code = Inr [] \<Longrightarrow>
     df_train ([] :: 'v price_row list) = [] \<and>
     main (w :: ('v, 'm, 'r) world) sel n =
       (case forecast_values w [] (period n) of Inl e \<Rightarrow> Inl e | Inr vs \<Rightarrow> Inl IndexError)"
  by (simp add: main_unfold df_train_def forecast_dataframe_def forecast_index_empty
        split: sum.splits)

theorem empty_history_gives_no_forecast_witness:
  "stocks_dictionary ''Apple Inc'' = Some ''AAPL'' \<and>
   load_stock_data (naive_world []) ''AAPL'' = Inr [] \<and>
   forecast_values (naive_world []) [] (period 1) = Inr (replicate 365 0) \<and>
   main (naive_world []) ''Apple Inc'' 1 = Inl IndexError \<and>
   forecast_values ((naive_world [])\<lparr>SARIMAX := strict_SARIMAX, fit := (\<lambda>m. Inl (Exception ''LinAlgError''))\<rparr>) [] (period 1)
     = Inl (Exception ''LinAlgError'') \<and>
   main ((naive_world [])\<lparr>SARIMAX := strict_SARIMAX, fit := (\<lambda>m. Inl (Exception ''LinAlgError''))\<rparr>) ''Apple Inc'' 1
     = Inl (Exception ''LinAlgError'')"
proof -
  let ?w = "(naive_world [])\<lparr>SARIMAX := strict_SARIMAX, fit := (\<lambda>m. Inl (Exception ''LinAlgError''))\<rparr>"
  have l: "load_stock_data ?w ''AAPL'' = Inr []"
    by (simp add: load_stock_data_def naive_world_def)
  have f1: "forecast_values (naive_world []) [] (period 1) = Inr (replicate 365 0)"
    by (simp add: naive_forecast_values period_def)
  have f2: "forecast_values ?w [] (period 1) = Inl (Exception ''LinAlgError'')"
    by (simp add: forecast_values_def strict_SARIMAX_def)
  show ?thesis
    using empty_history_gives_no_forecast [OF lookup_apple naive_load [of "[]" "''AAPL''"], of 1]
      empty_history_gives_no_forecast [OF lookup_apple l, of 1]
      lookup_apple naive_load [of "[]" "''AAPL''"] f1 f2
    by simp
qed

text \<open>
  C5 as stated fails: the prepare step returns on the empty history and on a history whose
  dates descend, and in a world whose library accepts the empty series the run reaches line
  148 and ends there with IndexError.
\<close>

theorem prepare_accepts_empty_and_unordered:
  "df_train ([] :: int price_row list) = [] \<and>
   df_train [\<lparr>Date = 18292, Open = 31020, Close = 30980\<rparr>, \<lparr>Date = 18290, Open = 30900, Close = 30950 :: int\<rparr>]
     = [(18292, 30980), (18290, 30950)] \<and>
   main (naive_world []) ''Apple Inc'' 1 = Inl IndexError"
  by (simp add: df_train_def naive_main_empty)

section \<open>The model\<close>



text \<open>
  C6, as the code has it. \<open>main\<close> has no check of the length of the series and does not
  read the convergence flag. An error raised by the construction of the model, by the fit or
  by the forecast ends the run with that error, unchanged. When the library returns as many
  values as the horizon for a non-empty series, the frame is built, whatever the length of
  the series and whatever the convergence flag says.
\<close>

theorem library_outcome_is_surfaced_unchecked:
  assumes "stocks_dictionary sel = Some code" and "load_stock_data w code = Inr rows"
  shows
    "(SARIMAX w (map Close rows) (1, 1, 1) (1, 1, 1, 12) = Inl e \<longrightarrow> main w sel n = Inl e) \<and>
     (SARIMAX w (map Close rows) (1, 1, 1) (1, 1, 1, 12) = Inr m \<and> fit w m = Inl e
        \<longrightarrow> main w sel n = Inl e) \<and>
     (SARIMAX w (map Close rows) (1, 1, 1) (1, 1, 1, 12) = Inr m \<and> fit w m = Inr r \<and>
      get_forecast w r (period n) = Inl e \<longrightarrow> main w sel n = Inl e) \<and>
     (SARIMAX w (map Close rows) (1, 1, 1) (1, 1, 1, 12) = Inr m \<and> fit w m = Inr r \<and>
      get_forecast w r (period n) = Inr vs \<and> rows \<noteq> [] \<and> int (length vs) = period n
        \<longrightarrow> main w sel n =
              Inr \<lparr>stock_code = code, Observed = df_train rows,
                   Forecast = zip (map (\<lambda>i. Date (last rows) + 1 + i) [0..period n - 1]) vs\<rparr>) \<and>
     main (w\<lparr>mle_converged := c\<rparr>) sel n = main w sel n"
proof (intro conjI impI)
  assume "SARIMAX w (map Close rows) (1, 1, 1) (1, 1, 1, 12) = Inl e"
  thus "main w sel n = Inl e"
    by (simp add: main_unfold [OF assms] forecast_values_def)
next
  assume "SARIMAX w (map Close rows) (1, 1, 1) (1, 1, 1, 12) = Inr m \<and> fit w m = Inl e"
  thus "main w sel n = Inl e"
    by (simp add: main_unfold [OF assms] forecast_values_def)
next
  assume "SARIMAX w (map Close rows) (1, 1, 1) (1, 1, 1, 12) = Inr m \<and> fit w m = Inr r \<and>
      get_forecast w r (period n) = Inl e"
  thus "main w sel n = Inl e"
    by (simp add: main_unfold [OF assms] forecast_values_def)
next
  assume a: "SARIMAX w (map Close rows) (1, 1, 1) (1, 1, 1, 12) = Inr m \<and> fit w m = Inr r \<and>
      get_forecast w r (period n) = Inr vs \<and> rows \<noteq> [] \<and> int (length vs) = period n"
  hence fv: "forecast_values w (map Close rows) (period n) = Inr vs"
    by (simp add: forecast_values_def)
  have "forecast_dataframe (map Date rows) (period n) vs =
          Inr (zip (map (\<lambda>i. last (map Date rows) + 1 + i) [0..period n - 1]) vs)"
    using a by (intro forecast_dataframe_ok) simp_all
  thus "main w sel n =
              Inr \<lparr>stock_code = code, Observed = df_train rows,
                   Forecast = zip (map (\<lambda>i. Date (last rows) + 1 + i) [0..period n - 1]) vs\<rparr>"
    using a by (simp add: main_unfold [OF assms] fv last_map)
next
  have fv: "forecast_values (w\<lparr>mle_converged := c\<rparr>) = forecast_values w"
    by (intro ext) (simp add: forecast_values_def split: sum.splits)
  have ld: "load_stock_data (w\<lparr>mle_converged := c\<rparr>) = load_stock_data w"
    by (intro ext) (simp add: load_stock_data_def)
  show "main (w\<lparr>mle_converged := c\<rparr>) sel n = main w sel n"
    unfolding main_def fv ld ..
qed

theorem library_outcome_is_surfaced_unchecked_witness:
  "stocks_dictionary ''Apple Inc'' = Some ''AAPL'' \<and>
   load_stock_data ((naive_world three_days)\<lparr>fit := (\<lambda>m. Inl (Exception ''LinAlgError''))\<rparr>) ''AAPL'' = Inr three_days \<and>
   main ((naive_world three_days)\<lparr>fit := (\<lambda>m. Inl (Exception ''LinAlgError''))\<rparr>) ''Apple Inc'' 1
     = Inl (Exception ''LinAlgError'') \<and>
   load_stock_data (naive_world three_days) ''AAPL'' = Inr three_days \<and>
   main (naive_world three_days) ''Apple Inc'' 1 =
     Inr \<lparr>stock_code = ''AAPL'', Observed = df_train three_days,
          Forecast = zip (map (\<lambda>i. 18293 + i) [0..364]) (replicate 365 30980)\<rparr>"
proof -
  let ?w = "(naive_world three_days)\<lparr>fit := (\<lambda>m. Inl (Exception ''LinAlgError''))\<rparr>"
  have l: "load_stock_data ?w ''AAPL'' = Inr three_days"
    by (simp add: load_stock_data_def naive_world_def)
  have s1: "SARIMAX ?w (map Close three_days) (1, 1, 1) (1, 1, 1, 12) = Inr (map Close three_days)
      \<and> fit ?w (map Close three_days) = Inl (Exception ''LinAlgError'')"
    by (simp add: naive_world_def)
  have s2: "SARIMAX (naive_world three_days) (map Close three_days) (1, 1, 1) (1, 1, 1, 12) = Inr (map Close three_days)
      \<and> fit (naive_world three_days) (map Close three_days) = Inr (map Close three_days)
      \<and> get_forecast (naive_world three_days) (map Close three_days) (period 1) = Inr (replicate 365 30980)
      \<and> three_days \<noteq> [] \<and> int (length (replicate 365 (30980::int))) = period 1"
    by (simp add: naive_world_def three_days_def period_def)
  have a: "main ?w ''Apple Inc'' 1 = Inl (Exception ''LinAlgError'')"
    using library_outcome_is_surfaced_unchecked [OF lookup_apple l] s1 by blast
  have b: "main (naive_world three_days) ''Apple Inc'' 1 =
     Inr \<lparr>stock_code = ''AAPL'', Observed = df_train three_days,
          Forecast = zip (map (\<lambda>i. Date (last three_days) + 1 + i) [0..period 1 - 1]) (replicate 365 30980)\<rparr>"
    using library_outcome_is_surfaced_unchecked [OF lookup_apple naive_load [of three_days "''AAPL''"]] s2 by blast
  show ?thesis
    using lookup_apple l a b naive_load [of three_days "''AAPL''"]
    by (simp add: three_days_facts period_def)
qed

text \<open>
  C6 as stated fails: with a library that accepts a series of three observations and
  reports no convergence, the run ends with a forecast frame of 365 rows.
\<close>

theorem short_series_is_fitted:
  "length (df_train three_days) < 24 \<and>
   fit (naive_world three_days) (map snd (df_train three_days)) = Inr (map snd (df_train three_days)) \<and>
   \<not> mle_converged (naive_world three_days) (map snd (df_train three_days)) \<and>
   map_sum id (length \<circ> Forecast) (main (naive_world three_days) ''Apple Inc'' 1) = Inr 365"
proof -
  have a: "length (df_train three_days) < 24"
    by (simp add: df_train_def three_days_facts)
  have b: "fit (naive_world three_days) (map snd (df_train three_days)) = Inr (map snd (df_train three_days))"
    and c: "\<not> mle_converged (naive_world three_days) (map snd (df_train three_days))"
    by (simp_all add: naive_world_def)
  have d: "map_sum id (length \<circ> Forecast) (main (naive_world three_days) ''Apple Inc'' 1) = Inr 365"
    by (simp add: naive_main three_days_facts period_def)
  show ?thesis using a b c d by simp
qed

section \<open>The forecast frame\<close>

text \<open>
  The scenario of the specification: after the 31 days of January 2020, a horizon of five
  days gives the first five days of February.
\<close>

lemma forecast_index_scenario:
  "forecast_index (map Date january) 5 =
     Inr [days_from_civil 2020 2 1, days_from_civil 2020 2 2, days_from_civil 2020 2 3,
          days_from_civil 2020 2 4, days_from_civil 2020 2 5]"
  unfolding january_def forecast_index_def iloc_last_def date_range_def days_from_civil_def
  by code_simp

text \<open>
  C1. For a non-empty observed series and a positive horizon \<open>h\<close>, the forecast index has
  exactly \<open>h\<close> dates; the first is the day after the last observed date, each next one is
  the day after the one before, so they ascend strictly without gaps or duplicates; and the
  dates of the frame that \<open>main\<close> builds are exactly this index.
\<close>

theorem forecast_dates:
  assumes "ds \<noteq> []" and "0 < h"
  shows "\<exists>idx. forecast_index ds h = Inr idx \<and> int (length idx) = h \<and> hd idx = last ds + 1 \<and>
           (\<forall>i<length idx. idx ! i = last ds + 1 + int i) \<and>
           (\<forall>i. Suc i < length idx \<longrightarrow> idx ! Suc i = idx ! i + 1) \<and>
           sorted_wrt (<) idx \<and> distinct idx \<and>
           (\<forall>(w :: ('v, 'm, 'r) world) sel n pg.
              main w sel n = Inr pg \<and> map fst (Observed pg) = ds \<and> period n = h
                \<longrightarrow> map fst (Forecast pg) = idx)"
proof -
  define idx where "idx = map (\<lambda>i. last ds + 1 + i) [0..h - 1]"
  have fi: "forecast_index ds h = Inr idx"
    using assms by (simp add: forecast_index_nonempty idx_def)
  have len: "length idx = nat h" by (simp add: idx_def)
  have nth: "idx ! i = last ds + 1 + int i" if "i < length idx" for i
    using that unfolding idx_def by simp
  have "idx \<noteq> []" using len assms(2) by auto
  hence hd: "hd idx = last ds + 1" using nth [of 0] by (simp add: hd_conv_nth)
  have step: "idx ! Suc i = idx ! i + 1" if "Suc i < length idx" for i
    using nth [of i] nth [of "Suc i"] that by simp
  have srt: "sorted_wrt (<) idx" unfolding idx_def by (rule sorted_days)
  have dst: "distinct idx" unfolding idx_def by (rule distinct_days)
  have mn: "map fst (Forecast pg) = idx"
    if "main w sel n = Inr pg" "map fst (Observed pg) = ds" "period n = h"
    for w :: "('v, 'm, 'r) world" and sel n pg
    using main_Inr_index [OF that(1)] that(2,3) fi by simp
  show ?thesis
    using fi len assms(2) hd nth step srt dst mn by (intro exI [of _ idx]) auto
qed

theorem forecast_dates_witness:
  "map Date january \<noteq> [] \<and> (0::int) < period 1 \<and>
   main (naive_world january) ''Apple Inc'' 1 = Inr january_page \<and>
   map fst (Observed january_page) = map Date january \<and>
   forecast_index (map Date january) (period 1) = Inr (map fst (Forecast january_page)) \<and>
   length (Forecast january_page) = 365 \<and>
   last (map Date january) = days_from_civil 2020 1 31 \<and>
   hd (map fst (Forecast january_page)) = days_from_civil 2020 2 1 \<and>
   sorted_wrt (<) (map fst (Forecast january_page)) \<and>
   distinct (map fst (Forecast january_page))"
proof -
  have ne: "map Date january \<noteq> []" using january_nonempty by simp
  have h: "(0::int) < period 1" by (simp add: period_def)
  have ob: "map fst (Observed january_page) = map Date january"
    by (simp add: january_page_def map_fst_df_train)
  have la: "last (map Date january) = 18292"
    using january_nonempty by (simp add: last_map last_january)
  from forecast_dates [OF ne h, where ?'v = int and ?'m = "int list" and ?'r = "int list"]
  obtain idx where fi: "forecast_index (map Date january) (period 1) = Inr idx"
    and len: "int (length idx) = period 1"
    and hd: "hd idx = last (map Date january) + 1"
    and srt: "sorted_wrt (<) idx" and dst: "distinct idx"
    and mn: "\<And>(w :: (int, int list, int list) world) sel n pg.
               main w sel n = Inr pg \<Longrightarrow> map fst (Observed pg) = map Date january \<Longrightarrow>
               period n = period 1 \<Longrightarrow> map fst (Forecast pg) = idx"
    by blast
  have eq: "map fst (Forecast january_page) = idx"
    using mn [OF january_main ob] by simp
  have l365: "length (Forecast january_page) = 365"
    using len arg_cong [OF eq, of length] by (simp add: period_def)
  have d1: "days_from_civil 2020 1 31 = 18292" and d2: "days_from_civil 2020 2 1 = 18293"
    by (simp_all add: days_from_civil_def)
  show ?thesis
    using ne h january_main ob fi l365 la hd srt dst unfolding eq d1 d2 by simp
qed

text \<open>
  C7. Lines 148 and 149 pair the date at each position with the predicted value at that
  position, and raise an error (the ValueError of the frame constructor) whenever the number
  of predicted values differs from the horizon.
\<close>

theorem forecast_dataframe_by_position:
  "ds \<noteq> [] \<Longrightarrow>
     (int (length p) \<noteq> h \<longrightarrow> forecast_dataframe ds h p = Inl ValueError) \<and>
     (int (length p) = h \<longrightarrow>
        (\<exists>fd. forecast_dataframe ds h p = Inr fd \<and> length fd = length p \<and>
           (\<forall>i<length p. fd ! i = (last ds + 1 + int i, p ! i))))"
proof (intro conjI impI)
  assume "ds \<noteq> []" and "int (length p) \<noteq> h"
  thus "forecast_dataframe ds h p = Inl ValueError" by (rule forecast_dataframe_mismatch)
next
  assume ne: "ds \<noteq> []" and l: "int (length p) = h"
  define fd where "fd = zip (map (\<lambda>i. last ds + 1 + i) [0..h - 1]) p"
  have "forecast_dataframe ds h p = Inr fd"
    unfolding fd_def using ne l by (rule forecast_dataframe_ok)
  moreover have "length fd = length p" using l by (auto simp: fd_def)
  moreover have "fd ! i = (last ds + 1 + int i, p ! i)" if "i < length p" for i
    using that l by (auto simp: fd_def)
  ultimately show "\<exists>fd. forecast_dataframe ds h p = Inr fd \<and> length fd = length p \<and>
           (\<forall>i<length p. fd ! i = (last ds + 1 + int i, p ! i))"
    by blast
qed

theorem forecast_dataframe_by_position_witness:
  "[18290, 18291, 18292 :: int] \<noteq> [] \<and>
   forecast_dataframe [18290, 18291, 18292] 2 [500, 501, 502 :: int] = Inl ValueError \<and>
   forecast_dataframe [18290, 18291, 18292] 2 [500, 501 :: int] = Inr [(18293, 500), (18294, 501)]"
proof -
  have ne: "[18290, 18291, 18292 :: int] \<noteq> []" by simp
  have a: "forecast_dataframe [18290, 18291, 18292] 2 [500, 501, 502 :: int] = Inl ValueError"
    using forecast_dataframe_by_position [OF ne, of "[500, 501, 502 :: int]" 2] by simp
  obtain fd where f: "forecast_dataframe [18290, 18291, 18292] 2 [500, 501 :: int] = Inr fd"
    and l: "length fd = 2" and n: "\<And>i. i < 2 \<Longrightarrow> fd ! i = (18292 + 1 + int i, [500, 501 :: int] ! i)"
    using forecast_dataframe_by_position [OF ne, of "[500, 501 :: int]" 2] by auto
  have "fd = [fd ! 0, fd ! 1]"
    using l by (auto simp: list_eq_iff_nth_eq less_Suc_eq numeral_2_eq_2)
  hence "fd = [(18293, 500), (18294, 501)]" using n [of 0] n [of 1] by simp
  thus ?thesis using ne a f by simp
qed

end
